theory Spec2Isabelle
  imports Complex_Main
begin

section \<open>The presentation objects that \<open>create_presentation.py\<close> drives\<close>

text \<open>
  The script builds its slides through the objects of the presentation library:
  a presentation holds slides, a slide holds shapes in the order of the \<open>add_\<close> calls,
  a shape has a position, a size, a fill, a line and a text frame, a text frame has
  paragraphs, a table is a grid of cells. Lengths are English Metric Units, as the
  library stores them; a property that the script never sets is \<open>None\<close>.
\<close>

definition Inches :: "rat \<Rightarrow> int" where
  "Inches inches = (let emu = inches * 914400 in if emu < 0 then \<lceil>emu\<rceil> else \<lfloor>emu\<rfloor>)"

definition Pt :: "int \<Rightarrow> int" where
  "Pt points = points * 12700"

datatype RGBColor = RGBColor nat nat nat

datatype PP_ALIGN = LEFT | CENTER

datatype MSO_SHAPE = RECTANGLE

datatype fill_format = Unset | Solid RGBColor | Background

record font =
  font_size :: "int option"
  font_bold :: "bool option"
  font_italic :: "bool option"
  font_color :: "RGBColor option"
  font_name :: "string option"

record text_paragraph =
  par_text :: string
  par_font :: font
  par_alignment :: "PP_ALIGN option"
  par_space_before :: "int option"
  par_level :: nat

record text_frame =
  word_wrap :: "bool option"
  margin_left :: "int option"
  margin_top :: "int option"
  paragraphs :: "text_paragraph list"

text \<open>
  A shape is an auto shape (\<open>auto_shape_type = Some RECTANGLE\<close>) or a text box
  (\<open>auto_shape_type = None\<close>); a table lives in a graphic frame.
\<close>

record shape =
  auto_shape_type :: "MSO_SHAPE option"
  shape_left :: int
  shape_top :: int
  shape_width :: int
  shape_height :: int
  shape_fill :: fill_format
  shape_line :: fill_format
  shape_text_frame :: text_frame

text \<open>
  A cell carries its text, its fill and the font of the first paragraph of its text
  frame, which is the only paragraph the script styles.
\<close>

record cell =
  cell_text :: string
  cell_fill :: fill_format
  cell_font :: font

type_synonym table = "cell list list"

record graphic_frame =
  frame_left :: int
  frame_top :: int
  frame_width :: int
  frame_height :: int
  frame_table :: table

datatype slide_shape = Shape shape | GraphicFrame graphic_frame

record slide =
  shapes :: "slide_shape list"

record presentation =
  slide_width :: int
  slide_height :: int
  slides :: "slide list"

datatype error = IndexError | ZeroDivisionError

subsection \<open>What the library's constructors deliver\<close>

definition new_font :: font where
  "new_font = \<lparr>font_size = None, font_bold = None, font_italic = None,
     font_color = None, font_name = None\<rparr>"

definition new_paragraph :: text_paragraph where
  "new_paragraph = \<lparr>par_text = [], par_font = new_font, par_alignment = None,
     par_space_before = None, par_level = 0\<rparr>"

text \<open>A fresh text frame holds one empty paragraph: \<open>tf.paragraphs[0]\<close> exists.\<close>

definition new_text_frame :: text_frame where
  "new_text_frame = \<lparr>word_wrap = None, margin_left = None, margin_top = None,
     paragraphs = [new_paragraph]\<rparr>"

definition add_shape :: "MSO_SHAPE \<Rightarrow> int \<Rightarrow> int \<Rightarrow> int \<Rightarrow> int \<Rightarrow> shape" where
  "add_shape t left top' width height =
     \<lparr>auto_shape_type = Some t, shape_left = left, shape_top = top', shape_width = width,
      shape_height = height, shape_fill = Unset, shape_line = Unset,
      shape_text_frame = new_text_frame\<rparr>"

definition add_textbox :: "int \<Rightarrow> int \<Rightarrow> int \<Rightarrow> int \<Rightarrow> shape" where
  "add_textbox left top' width height =
     \<lparr>auto_shape_type = None, shape_left = left, shape_top = top', shape_width = width,
      shape_height = height, shape_fill = Unset, shape_line = Unset,
      shape_text_frame = new_text_frame\<rparr>"

definition add_paragraph :: "text_frame \<Rightarrow> text_frame \<times> nat" where
  "add_paragraph tf =
     (tf\<lparr>paragraphs := paragraphs tf @ [new_paragraph]\<rparr>, length (paragraphs tf))"

text \<open>
  \<open>add_table(rows, cols, left, top, width, height)\<close> divides the height by
  \<open>rows\<close> and the width by \<open>cols\<close> before it builds the grid, so a table
  without rows or without columns raises ZeroDivisionError; otherwise it delivers a
  graphic frame whose table has \<open>rows\<close> rows of \<open>cols\<close> blank cells each.
\<close>

definition new_cell :: cell where
  "new_cell = \<lparr>cell_text = [], cell_fill = Unset, cell_font = new_font\<rparr>"

definition add_table ::
  "nat \<Rightarrow> nat \<Rightarrow> int \<Rightarrow> int \<Rightarrow> int \<Rightarrow> int \<Rightarrow> error + graphic_frame" where
  "add_table rows cols left top' width height =
     (if rows = 0 \<or> cols = 0 then Inl ZeroDivisionError
      else Inr \<lparr>frame_left = left, frame_top = top', frame_width = width,
                 frame_height = height,
                 frame_table = replicate rows (replicate cols new_cell)\<rparr>)"

text \<open>
  \<open>table.cell(r, c)\<close> followed by assignments to the cell: the lookup indexes the
  rows and then the cells of the row, and an index past the end raises IndexError.
\<close>

definition update_cell :: "table \<Rightarrow> nat \<Rightarrow> nat \<Rightarrow> (cell \<Rightarrow> cell) \<Rightarrow> error + table" where
  "update_cell tbl r c f =
     (if r < length tbl \<and> c < length (tbl ! r)
      then Inr (tbl[r := (tbl ! r)[c := f (tbl ! r ! c)]])
      else Inl IndexError)"

text \<open>
  \<open>prs.slides.add_slide(prs.slide_layouts[6])\<close>: the blank layout of the default
  template, so the new slide starts without shapes. The script appends the slide first
  and fills it in place; the model lists the slide in the presentation with the shapes
  it has when the call ends, by a return or by an exception. The script touches no shape
  after it has added the next one, so configuring a shape and then listing it gives the
  slide that the in-place assignments give.
\<close>

definition add_slide :: "presentation \<Rightarrow> slide \<Rightarrow> presentation" where
  "add_slide prs s = prs\<lparr>slides := slides prs @ [s]\<rparr>"

section \<open>The four slide builders\<close>

subsection \<open>\<open>add_title_slide\<close>\<close>

definition title_box :: "string \<Rightarrow> shape" where
  "title_box title =
     (let left = Inches 0.5;
          top' = Inches 2.5;
          width = Inches 9;
          height = Inches 1.5;
          shape = add_shape RECTANGLE left top' width height;
          shape = shape\<lparr>shape_fill := Solid (RGBColor 0 112 192)\<rparr>;
          shape = shape\<lparr>shape_line := Background\<rparr>;
          tf = shape_text_frame shape;
          tf = tf\<lparr>word_wrap := Some True\<rparr>;
          p = paragraphs tf ! 0;
          p = p\<lparr>par_text := title\<rparr>;
          p = p\<lparr>par_font := (par_font p)\<lparr>font_size := Some (Pt 40)\<rparr>\<rparr>;
          p = p\<lparr>par_font := (par_font p)\<lparr>font_bold := Some True\<rparr>\<rparr>;
          p = p\<lparr>par_font := (par_font p)\<lparr>font_color := Some (RGBColor 255 255 255)\<rparr>\<rparr>;
          p = p\<lparr>par_alignment := Some CENTER\<rparr>;
          tf = tf\<lparr>paragraphs := (paragraphs tf)[0 := p]\<rparr>
      in shape\<lparr>shape_text_frame := tf\<rparr>)"

definition subtitle_box :: "string \<Rightarrow> shape" where
  "subtitle_box subtitle =
     (let left = Inches 0.5;
          top' = Inches 4.2;
          width = Inches 9;
          height = Inches 0.8;
          txBox = add_textbox left top' width height;
          tf = shape_text_frame txBox;
          p = paragraphs tf ! 0;
          p = p\<lparr>par_text := subtitle\<rparr>;
          p = p\<lparr>par_font := (par_font p)\<lparr>font_size := Some (Pt 24)\<rparr>\<rparr>;
          p = p\<lparr>par_font := (par_font p)\<lparr>font_color := Some (RGBColor 100 100 100)\<rparr>\<rparr>;
          p = p\<lparr>par_alignment := Some CENTER\<rparr>;
          tf = tf\<lparr>paragraphs := (paragraphs tf)[0 := p]\<rparr>
      in txBox\<lparr>shape_text_frame := tf\<rparr>)"

definition add_title_slide :: "presentation \<Rightarrow> string \<Rightarrow> string \<Rightarrow> slide \<times> presentation" where
  "add_title_slide prs title subtitle =
     (let slide = \<lparr>shapes = []\<rparr>;
          slide = slide\<lparr>shapes := shapes slide @ [Shape (title_box title)]\<rparr>;
          slide = (if subtitle \<noteq> []
                   then slide\<lparr>shapes := shapes slide @ [Shape (subtitle_box subtitle)]\<rparr>
                   else slide)
      in (slide, add_slide prs slide))"

subsection \<open>\<open>add_content_slide\<close>\<close>

definition content_header :: "string \<Rightarrow> shape" where
  "content_header title =
     (let shape = add_shape RECTANGLE (Inches 0) (Inches 0) (Inches 10) (Inches 1.2);
          shape = shape\<lparr>shape_fill := Solid (RGBColor 0 112 192)\<rparr>;
          shape = shape\<lparr>shape_line := Background\<rparr>;
          tf = shape_text_frame shape;
          tf = tf\<lparr>word_wrap := Some True\<rparr>;
          p = paragraphs tf ! 0;
          p = p\<lparr>par_text := title\<rparr>;
          p = p\<lparr>par_font := (par_font p)\<lparr>font_size := Some (Pt 32)\<rparr>\<rparr>;
          p = p\<lparr>par_font := (par_font p)\<lparr>font_bold := Some True\<rparr>\<rparr>;
          p = p\<lparr>par_font := (par_font p)\<lparr>font_color := Some (RGBColor 255 255 255)\<rparr>\<rparr>;
          p = p\<lparr>par_alignment := Some LEFT\<rparr>;
          tf = tf\<lparr>paragraphs := (paragraphs tf)[0 := p]\<rparr>;
          tf = tf\<lparr>margin_left := Some (Inches 0.5)\<rparr>;
          tf = tf\<lparr>margin_top := Some (Inches 0.3)\<rparr>
      in shape\<lparr>shape_text_frame := tf\<rparr>)"

text \<open>The loop \<open>for i, bullet in enumerate(bullets)\<close>, entered with \<open>i = 0\<close>.\<close>

fun content_bullets :: "nat \<Rightarrow> string list \<Rightarrow> text_frame \<Rightarrow> text_frame" where
  "content_bullets i [] tf = tf"
| "content_bullets i (bullet # rest) tf =
     (let (tf, k) = (if i = 0 then (tf, 0) else add_paragraph tf);
          p = paragraphs tf ! k;
          p = p\<lparr>par_text := bullet\<rparr>;
          p = p\<lparr>par_font := (par_font p)\<lparr>font_size := Some (Pt 20)\<rparr>\<rparr>;
          p = p\<lparr>par_space_before := Some (Pt 12)\<rparr>;
          p = p\<lparr>par_level := 0\<rparr>;
          tf = tf\<lparr>paragraphs := (paragraphs tf)[k := p]\<rparr>
      in content_bullets (Suc i) rest tf)"

definition content_body :: "string list \<Rightarrow> shape" where
  "content_body bullets =
     (let left = Inches 0.5;
          top' = Inches 1.5;
          width = Inches 9;
          height = Inches 5;
          txBox = add_textbox left top' width height;
          tf = shape_text_frame txBox;
          tf = tf\<lparr>word_wrap := Some True\<rparr>;
          tf = content_bullets 0 bullets tf
      in txBox\<lparr>shape_text_frame := tf\<rparr>)"

definition note_box :: "string \<Rightarrow> shape" where
  "note_box note =
     (let left = Inches 0.5;
          top' = Inches 6.5;
          width = Inches 9;
          height = Inches 0.5;
          txBox = add_textbox left top' width height;
          tf = shape_text_frame txBox;
          p = paragraphs tf ! 0;
          p = p\<lparr>par_text := note\<rparr>;
          p = p\<lparr>par_font := (par_font p)\<lparr>font_size := Some (Pt 14)\<rparr>\<rparr>;
          p = p\<lparr>par_font := (par_font p)\<lparr>font_italic := Some True\<rparr>\<rparr>;
          p = p\<lparr>par_font := (par_font p)\<lparr>font_color := Some (RGBColor 128 128 128)\<rparr>\<rparr>;
          tf = tf\<lparr>paragraphs := (paragraphs tf)[0 := p]\<rparr>
      in txBox\<lparr>shape_text_frame := tf\<rparr>)"

definition add_content_slide ::
  "presentation \<Rightarrow> string \<Rightarrow> string list \<Rightarrow> string \<Rightarrow> slide \<times> presentation" where
  "add_content_slide prs title bullets note =
     (let slide = \<lparr>shapes = []\<rparr>;
          slide = slide\<lparr>shapes := shapes slide @ [Shape (content_header title)]\<rparr>;
          slide = slide\<lparr>shapes := shapes slide @ [Shape (content_body bullets)]\<rparr>;
          slide = (if note \<noteq> []
                   then slide\<lparr>shapes := shapes slide @ [Shape (note_box note)]\<rparr>
                   else slide)
      in (slide, add_slide prs slide))"

subsection \<open>\<open>add_diagram_slide\<close>\<close>

definition diagram_header :: "string \<Rightarrow> shape" where
  "diagram_header title =
     (let shape = add_shape RECTANGLE (Inches 0) (Inches 0) (Inches 10) (Inches 1.2);
          shape = shape\<lparr>shape_fill := Solid (RGBColor 0 112 192)\<rparr>;
          shape = shape\<lparr>shape_line := Background\<rparr>;
          tf = shape_text_frame shape;
          p = paragraphs tf ! 0;
          p = p\<lparr>par_text := title\<rparr>;
          p = p\<lparr>par_font := (par_font p)\<lparr>font_size := Some (Pt 32)\<rparr>\<rparr>;
          p = p\<lparr>par_font := (par_font p)\<lparr>font_bold := Some True\<rparr>\<rparr>;
          p = p\<lparr>par_font := (par_font p)\<lparr>font_color := Some (RGBColor 255 255 255)\<rparr>\<rparr>;
          tf = tf\<lparr>paragraphs := (paragraphs tf)[0 := p]\<rparr>;
          tf = tf\<lparr>margin_left := Some (Inches 0.5)\<rparr>;
          tf = tf\<lparr>margin_top := Some (Inches 0.3)\<rparr>
      in shape\<lparr>shape_text_frame := tf\<rparr>)"

definition diagram_box :: "string \<Rightarrow> shape" where
  "diagram_box diagram_text =
     (let left = Inches 0.5;
          top' = Inches 1.5;
          width = Inches 9;
          height = Inches 2.5;
          shape = add_shape RECTANGLE left top' width height;
          shape = shape\<lparr>shape_fill := Solid (RGBColor 240 240 240)\<rparr>;
          shape = shape\<lparr>shape_line := Solid (RGBColor 200 200 200)\<rparr>;
          tf = shape_text_frame shape;
          tf = tf\<lparr>word_wrap := Some True\<rparr>;
          tf = tf\<lparr>margin_left := Some (Inches 0.2)\<rparr>;
          tf = tf\<lparr>margin_top := Some (Inches 0.2)\<rparr>;
          p = paragraphs tf ! 0;
          p = p\<lparr>par_text := diagram_text\<rparr>;
          p = p\<lparr>par_font := (par_font p)\<lparr>font_size := Some (Pt 14)\<rparr>\<rparr>;
          p = p\<lparr>par_font := (par_font p)\<lparr>font_name := Some ''Courier New''\<rparr>\<rparr>;
          p = p\<lparr>par_font := (par_font p)\<lparr>font_color := Some (RGBColor 0 0 0)\<rparr>\<rparr>;
          tf = tf\<lparr>paragraphs := (paragraphs tf)[0 := p]\<rparr>
      in shape\<lparr>shape_text_frame := tf\<rparr>)"

fun diagram_bullets :: "nat \<Rightarrow> string list \<Rightarrow> text_frame \<Rightarrow> text_frame" where
  "diagram_bullets i [] tf = tf"
| "diagram_bullets i (bullet # rest) tf =
     (let (tf, k) = (if i = 0 then (tf, 0) else add_paragraph tf);
          p = paragraphs tf ! k;
          p = p\<lparr>par_text := bullet\<rparr>;
          p = p\<lparr>par_font := (par_font p)\<lparr>font_size := Some (Pt 18)\<rparr>\<rparr>;
          p = p\<lparr>par_font := (par_font p)\<lparr>font_color := Some (RGBColor 0 0 0)\<rparr>\<rparr>;
          p = p\<lparr>par_space_before := Some (Pt 8)\<rparr>;
          tf = tf\<lparr>paragraphs := (paragraphs tf)[k := p]\<rparr>
      in diagram_bullets (Suc i) rest tf)"

definition diagram_bullet_box :: "string list \<Rightarrow> shape" where
  "diagram_bullet_box bullets =
     (let left = Inches 0.5;
          top' = Inches 4.2;
          width = Inches 9;
          height = Inches 2.5;
          txBox = add_textbox left top' width height;
          tf = shape_text_frame txBox;
          tf = tf\<lparr>word_wrap := Some True\<rparr>;
          tf = diagram_bullets 0 bullets tf
      in txBox\<lparr>shape_text_frame := tf\<rparr>)"

text \<open>
  \<open>bullets=None\<close> is the default, so the argument is an optional list; \<open>if bullets:\<close>
  holds for a list that is present and not empty.
\<close>

definition add_diagram_slide ::
  "presentation \<Rightarrow> string \<Rightarrow> string \<Rightarrow> string list option \<Rightarrow> slide \<times> presentation" where
  "add_diagram_slide prs title diagram_text bullets =
     (let slide = \<lparr>shapes = []\<rparr>;
          slide = slide\<lparr>shapes := shapes slide @ [Shape (diagram_header title)]\<rparr>;
          slide = slide\<lparr>shapes := shapes slide @ [Shape (diagram_box diagram_text)]\<rparr>;
          slide = (case bullets of
                     None \<Rightarrow> slide
                   | Some bs \<Rightarrow>
                       if bs \<noteq> []
                       then slide\<lparr>shapes := shapes slide @ [Shape (diagram_bullet_box bs)]\<rparr>
                       else slide)
      in (slide, add_slide prs slide))"

subsection \<open>\<open>add_table_slide\<close>\<close>

text \<open>
  The values of a row are arbitrary Python objects that \<open>str\<close> turns into text. The
  model has strings, integers, booleans and \<open>None\<close>.
\<close>

datatype pyval = PyStr string | PyInt int | PyBool bool | PyNone

function str_nat :: "nat \<Rightarrow> string" where
  "str_nat n =
     (if n < 10 then [''0123456789'' ! n]
      else str_nat (n div 10) @ [''0123456789'' ! (n mod 10)])"
  by pat_completeness auto
termination
  by (relation "measure (\<lambda>n. n)") auto

fun str :: "pyval \<Rightarrow> string" where
  "str (PyStr s) = s"
| "str (PyInt i) = (if i < 0 then CHR ''-'' # str_nat (nat (- i)) else str_nat (nat i))"
| "str (PyBool b) = (if b then ''True'' else ''False'')"
| "str PyNone = ''None''"

definition table_header :: "string \<Rightarrow> shape" where
  "table_header title =
     (let shape = add_shape RECTANGLE (Inches 0) (Inches 0) (Inches 10) (Inches 1.2);
          shape = shape\<lparr>shape_fill := Solid (RGBColor 0 112 192)\<rparr>;
          shape = shape\<lparr>shape_line := Background\<rparr>;
          tf = shape_text_frame shape;
          p = paragraphs tf ! 0;
          p = p\<lparr>par_text := title\<rparr>;
          p = p\<lparr>par_font := (par_font p)\<lparr>font_size := Some (Pt 32)\<rparr>\<rparr>;
          p = p\<lparr>par_font := (par_font p)\<lparr>font_bold := Some True\<rparr>\<rparr>;
          p = p\<lparr>par_font := (par_font p)\<lparr>font_color := Some (RGBColor 255 255 255)\<rparr>\<rparr>;
          tf = tf\<lparr>paragraphs := (paragraphs tf)[0 := p]\<rparr>;
          tf = tf\<lparr>margin_left := Some (Inches 0.5)\<rparr>;
          tf = tf\<lparr>margin_top := Some (Inches 0.3)\<rparr>
      in shape\<lparr>shape_text_frame := tf\<rparr>)"

text \<open>What the body of the loop over \<open>headers\<close> assigns to the cell it has looked up.\<close>

definition header_cell :: "string \<Rightarrow> cell \<Rightarrow> cell" where
  "header_cell header cell =
     (let cell = cell\<lparr>cell_text := header\<rparr>;
          cell = cell\<lparr>cell_fill := Solid (RGBColor 0 112 192)\<rparr>;
          cell = cell\<lparr>cell_font := (cell_font cell)\<lparr>font_bold := Some True\<rparr>\<rparr>;
          cell = cell\<lparr>cell_font := (cell_font cell)\<lparr>font_size := Some (Pt 14)\<rparr>\<rparr>;
          cell = cell\<lparr>cell_font := (cell_font cell)\<lparr>font_color := Some (RGBColor 255 255 255)\<rparr>\<rparr>
      in cell)"

text \<open>
  The loops over the table give the exception that left them, if any, and the table as
  the assignments made so far have left it.
\<close>

fun table_headers :: "nat \<Rightarrow> string list \<Rightarrow> table \<Rightarrow> error option \<times> table" where
  "table_headers i [] tbl = (None, tbl)"
| "table_headers i (header # rest) tbl =
     (case update_cell tbl 0 i (header_cell header) of
        Inl e \<Rightarrow> (Some e, tbl)
      | Inr tbl \<Rightarrow> table_headers (Suc i) rest tbl)"

text \<open>What the body of the inner loop over a row assigns to the cell it has looked up.\<close>

definition data_cell :: "pyval \<Rightarrow> cell \<Rightarrow> cell" where
  "data_cell val cell =
     (let cell = cell\<lparr>cell_text := str val\<rparr>;
          cell = cell\<lparr>cell_font := (cell_font cell)\<lparr>font_size := Some (Pt 12)\<rparr>\<rparr>
      in cell)"

fun table_row :: "nat \<Rightarrow> nat \<Rightarrow> pyval list \<Rightarrow> table \<Rightarrow> error option \<times> table" where
  "table_row row_idx col_idx [] tbl = (None, tbl)"
| "table_row row_idx col_idx (val # rest) tbl =
     (case update_cell tbl (row_idx + 1) col_idx (data_cell val) of
        Inl e \<Rightarrow> (Some e, tbl)
      | Inr tbl \<Rightarrow> table_row row_idx (Suc col_idx) rest tbl)"

fun table_rows :: "nat \<Rightarrow> pyval list list \<Rightarrow> table \<Rightarrow> error option \<times> table" where
  "table_rows row_idx [] tbl = (None, tbl)"
| "table_rows row_idx (row # rest) tbl =
     (case table_row row_idx 0 row tbl of
        (Some e, tbl) \<Rightarrow> (Some e, tbl)
      | (None, tbl) \<Rightarrow> table_rows (Suc row_idx) rest tbl)"

text \<open>
  The result pairs the outcome of the call, the slide it returns or the exception that
  leaves it, with the presentation as the call leaves it. The slide is in the
  presentation in both cases: with the header alone when \<open>add_table\<close> raises, and
  with the table as far as the loops have filled it when a cell lookup raises.
\<close>

definition add_table_slide ::
  "presentation \<Rightarrow> string \<Rightarrow> string list \<Rightarrow> pyval list list
     \<Rightarrow> (error + slide) \<times> presentation" where
  "add_table_slide prs title headers rows =
     (let slide = \<lparr>shapes = []\<rparr>;
          slide = slide\<lparr>shapes := shapes slide @ [Shape (table_header title)]\<rparr>;
          left = Inches 0.5;
          top' = Inches 1.5;
          width = Inches 9;
          height = Inches 0.5
      in case add_table (length rows + 1) (length headers) left top' width height of
           Inl e \<Rightarrow> (Inl e, add_slide prs slide)
         | Inr frame \<Rightarrow>
             (let (raised, tbl) =
                    (case table_headers 0 headers (frame_table frame) of
                       (Some e, tbl) \<Rightarrow> (Some e, tbl)
                     | (None, tbl) \<Rightarrow> table_rows 0 rows tbl);
                  slide = slide\<lparr>shapes := shapes slide
                            @ [GraphicFrame (frame\<lparr>frame_table := tbl\<rparr>)]\<rparr>
              in (case raised of Some e \<Rightarrow> Inl e | None \<Rightarrow> Inr slide,
                  add_slide prs slide)))"

subsection \<open>The presentation that \<open>main\<close> hands to the builders\<close>

definition main_prs :: presentation where
  "main_prs = \<lparr>slide_width = Inches 10, slide_height = Inches 7.5, slides = []\<rparr>"

section \<open>Reading a built slide\<close>

text \<open>
  The regions of a slide are its shapes, in the order in which the builder added them:
  the shape that carries the title first, the body second, the optional region third.
\<close>

definition region_box :: "slide_shape \<Rightarrow> int \<times> int \<times> int \<times> int" where
  "region_box s =
     (case s of
        Shape sh \<Rightarrow> (shape_left sh, shape_top sh, shape_width sh, shape_height sh)
      | GraphicFrame fr \<Rightarrow> (frame_left fr, frame_top fr, frame_width fr, frame_height fr))"

definition header_region :: "slide \<Rightarrow> slide_shape option" where
  "header_region s = (case shapes s of [] \<Rightarrow> None | sh # _ \<Rightarrow> Some sh)"

definition second_region :: "slide \<Rightarrow> slide_shape option" where
  "second_region s = (case shapes s of _ # sh # _ \<Rightarrow> Some sh | _ \<Rightarrow> None)"

definition third_region :: "slide \<Rightarrow> slide_shape option" where
  "third_region s = (case shapes s of _ # _ # sh # _ \<Rightarrow> Some sh | _ \<Rightarrow> None)"

definition region_paragraphs :: "slide_shape option \<Rightarrow> text_paragraph list option" where
  "region_paragraphs r =
     (case r of Some (Shape sh) \<Rightarrow> Some (paragraphs (shape_text_frame sh)) | _ \<Rightarrow> None)"

text \<open>The paragraph that one round of each bullet loop leaves behind.\<close>

definition content_par :: "string \<Rightarrow> text_paragraph" where
  "content_par bullet =
     \<lparr>par_text = bullet,
      par_font = \<lparr>font_size = Some (Pt 20), font_bold = None, font_italic = None,
                   font_color = None, font_name = None\<rparr>,
      par_alignment = None, par_space_before = Some (Pt 12), par_level = 0\<rparr>"

definition diagram_par :: "string \<Rightarrow> text_paragraph" where
  "diagram_par bullet =
     \<lparr>par_text = bullet,
      par_font = \<lparr>font_size = Some (Pt 18), font_bold = None, font_italic = None,
                   font_color = Some (RGBColor 0 0 0), font_name = None\<rparr>,
      par_alignment = None, par_space_before = Some (Pt 8), par_level = 0\<rparr>"

text \<open>
  A table row after the inner loop has run over \<open>row\<close> in a grid of \<open>n\<close> columns:
  the cells the loop reached before it ended or raised, then the cells it never touched.
\<close>

definition filled_row :: "nat \<Rightarrow> pyval list \<Rightarrow> cell list" where
  "filled_row n row =
     map (\<lambda>val. data_cell val new_cell) (take n row) @ replicate (n - length row) new_cell"

text \<open>The rows that the outer loop enters: all up to the first one that is too long.\<close>

fun rows_reached :: "nat \<Rightarrow> pyval list list \<Rightarrow> pyval list list" where
  "rows_reached n [] = []"
| "rows_reached n (row # rest) =
     (if length row \<le> n then row # rows_reached n rest else [row])"

definition filled_table :: "string list \<Rightarrow> pyval list list \<Rightarrow> table" where
  "filled_table headers rows =
     map (\<lambda>h. header_cell h new_cell) headers
       # map (filled_row (length headers)) (rows_reached (length headers) rows)
       @ replicate (length rows - length (rows_reached (length headers) rows))
           (replicate (length headers) new_cell)"

definition table_frame :: "table \<Rightarrow> graphic_frame" where
  "table_frame tbl =
     \<lparr>frame_left = Inches 0.5, frame_top = Inches 1.5, frame_width = Inches 9,
      frame_height = Inches 0.5, frame_table = tbl\<rparr>"

section \<open>The bullet loops\<close>

lemma content_bullets_later:
  "0 < i \<Longrightarrow>
   content_bullets i bs tf = tf\<lparr>paragraphs := paragraphs tf @ map content_par bs\<rparr>"
proof (induction bs arbitrary: i tf)
  case Nil
  then show ?case by simp
next
  case (Cons b bs)
  then show ?case
    by (simp add: add_paragraph_def new_paragraph_def new_font_def content_par_def)
qed

lemma content_bullets_first:
  "paragraphs tf = [new_paragraph] \<Longrightarrow>
   content_bullets 0 bs tf =
     tf\<lparr>paragraphs := (if bs = [] then [new_paragraph] else map content_par bs)\<rparr>"
  by (cases bs)
     (simp_all add: content_bullets_later new_paragraph_def new_font_def content_par_def)

lemma content_body_eq:
  "content_body bullets =
     \<lparr>auto_shape_type = None, shape_left = Inches 0.5, shape_top = Inches 1.5,
      shape_width = Inches 9, shape_height = Inches 5, shape_fill = Unset,
      shape_line = Unset,
      shape_text_frame = \<lparr>word_wrap = Some True, margin_left = None, margin_top = None,
        paragraphs = (if bullets = [] then [new_paragraph] else map content_par bullets)\<rparr>\<rparr>"
  by (simp add: content_body_def add_textbox_def content_bullets_first new_text_frame_def)

lemma content_slide_shapes:
  "shapes (fst (add_content_slide prs title bullets note)) =
     Shape (content_header title) # Shape (content_body bullets)
       # (if note \<noteq> [] then [Shape (note_box note)] else [])"
  by (simp add: add_content_slide_def Let_def)

lemma diagram_bullets_later:
  "0 < i \<Longrightarrow>
   diagram_bullets i bs tf = tf\<lparr>paragraphs := paragraphs tf @ map diagram_par bs\<rparr>"
proof (induction bs arbitrary: i tf)
  case Nil
  then show ?case by simp
next
  case (Cons b bs)
  then show ?case
    by (simp add: add_paragraph_def new_paragraph_def new_font_def diagram_par_def)
qed

lemma diagram_bullets_first:
  "paragraphs tf = [new_paragraph] \<Longrightarrow> bs \<noteq> [] \<Longrightarrow>
   diagram_bullets 0 bs tf = tf\<lparr>paragraphs := map diagram_par bs\<rparr>"
  by (cases bs)
     (simp_all add: diagram_bullets_later new_paragraph_def new_font_def diagram_par_def)

lemma diagram_slide_shapes:
  "shapes (fst (add_diagram_slide prs title diagram_text bullets)) =
     Shape (diagram_header title) # Shape (diagram_box diagram_text)
       # (case bullets of
            None \<Rightarrow> []
          | Some bs \<Rightarrow> if bs \<noteq> [] then [Shape (diagram_bullet_box bs)] else [])"
  by (simp add: add_diagram_slide_def Let_def split: option.split)

section \<open>Content slides\<close>

text \<open>
  C9. With an empty \<open>bullets\<close> the loop never runs and the body keeps the one blank
  paragraph its text frame was created with; for every \<open>bullets\<close> the body holds
  \<open>max 1 (len bullets)\<close> paragraphs.
\<close>

theorem content_body_paragraph_count:
  "region_paragraphs (second_region (fst (add_content_slide prs title [] note)))
     = Some [new_paragraph] \<and>
   par_text new_paragraph = [] \<and>
   map_option length
     (region_paragraphs (second_region (fst (add_content_slide prs title bullets note))))
     = Some (max 1 (length bullets))"
  by (cases bullets)
     (simp_all add: content_slide_shapes second_region_def region_paragraphs_def
        content_body_eq new_paragraph_def)

text \<open>
  C3, as the specification words it: the body of a content slide holds \<open>len bullets\<close>
  paragraphs. It fails for the empty sequence, where the body holds one paragraph.
\<close>

theorem content_paragraphs_empty_counterexample:
  "map_option length
     (region_paragraphs (second_region (fst (add_content_slide main_prs ''Heading'' [] ''''))))
   \<noteq> Some (length ([] :: string list))"
  by (simp add: content_slide_shapes second_region_def region_paragraphs_def content_body_eq)

text \<open>
  C3, amended: for a sequence \<open>bullets\<close> that is not empty, the body holds one
  paragraph per entry, in the order of \<open>bullets\<close>, each with the entry as its text
  (an empty string stays, as a paragraph with empty text), 20 pt and 12 pt spacing before.
\<close>

theorem content_paragraphs_follow_bullets:
  assumes "bullets \<noteq> []"
  shows "region_paragraphs (second_region (fst (add_content_slide prs title bullets note)))
           = Some (map (\<lambda>bullet.
               \<lparr>par_text = bullet,
                par_font = \<lparr>font_size = Some (Pt 20), font_bold = None, font_italic = None,
                             font_color = None, font_name = None\<rparr>,
                par_alignment = None, par_space_before = Some (Pt 12), par_level = 0\<rparr>)
              bullets) \<and>
         map_option length
           (region_paragraphs (second_region (fst (add_content_slide prs title bullets note))))
           = Some (length bullets) \<and>
         map_option (map par_text)
           (region_paragraphs (second_region (fst (add_content_slide prs title bullets note))))
           = Some bullets"
  using assms
  by (simp add: content_slide_shapes second_region_def region_paragraphs_def
        content_body_eq content_par_def comp_def)

theorem content_paragraphs_follow_bullets_witness:
  "[''line1'', '''', ''line2''] \<noteq> ([] :: string list) \<and>
   map_option (map par_text)
     (region_paragraphs (second_region
        (fst (add_content_slide main_prs ''Heading'' [''line1'', '''', ''line2''] ''''))))
     = Some [''line1'', '''', ''line2''] \<and>
   map_option length
     (region_paragraphs (second_region
        (fst (add_content_slide main_prs ''Heading'' [''line1'', '''', ''line2''] ''''))))
     = Some 3"
  using content_paragraphs_follow_bullets
    [of "[''line1'', '''', ''line2'']" main_prs "''Heading''" "''''"]
  by simp

text \<open>
  C8. With a note that is not empty, the third region of a content slide is a text box at
  0.5 in from the left and 6.5 in from the top, 9 in wide and 0.5 in high, whose
  paragraph is the note in 14 pt italic gray; it ends 0.5 in above the bottom of the
  7.5 in canvas, and its box is the same for any other \<open>bullets\<close>.
\<close>

theorem note_region_pinned:
  assumes "note \<noteq> []"
  shows "third_region (fst (add_content_slide prs title bullets note)) =
           Some (Shape
             \<lparr>auto_shape_type = None, shape_left = Inches 0.5, shape_top = Inches 6.5,
              shape_width = Inches 9, shape_height = Inches 0.5, shape_fill = Unset,
              shape_line = Unset,
              shape_text_frame =
                \<lparr>word_wrap = None, margin_left = None, margin_top = None,
                 paragraphs =
                   [\<lparr>par_text = note,
                     par_font = \<lparr>font_size = Some (Pt 14), font_bold = None,
                                  font_italic = Some True,
                                  font_color = Some (RGBColor 128 128 128),
                                  font_name = None\<rparr>,
                     par_alignment = None, par_space_before = None, par_level = 0\<rparr>]\<rparr>\<rparr>) \<and>
         third_region (fst (add_content_slide prs title bullets note))
           = third_region (fst (add_content_slide prs' title' bullets' note)) \<and>
         Inches 6.5 + Inches 0.5 \<le> slide_height main_prs \<and>
         slide_height main_prs - (Inches 6.5 + Inches 0.5) = Inches 0.5"
  using assms
  by (simp add: content_slide_shapes third_region_def note_box_def add_textbox_def
        new_text_frame_def new_paragraph_def new_font_def main_prs_def Inches_def)

theorem note_region_pinned_witness:
  "''n'' \<noteq> ([] :: string) \<and>
   map_option region_box
     (third_region (fst (add_content_slide main_prs ''Heading'' [''a'', ''b''] ''n'')))
     = Some (457200, 5943600, 8229600, 457200) \<and>
   map_option region_box
     (third_region (fst (add_content_slide main_prs ''Heading'' [] ''n'')))
     = Some (457200, 5943600, 8229600, 457200)"
proof -
  have n: "''n'' \<noteq> ([] :: string)" by simp
  show ?thesis
    using n note_region_pinned [OF n, of main_prs "''Heading''" "[''a'', ''b'']", THEN conjunct1]
      note_region_pinned [OF n, of main_prs "''Heading''" "[]", THEN conjunct1]
    by (simp add: region_box_def Inches_def)
qed

section \<open>Diagram slides\<close>

lemma diagram_box_eq:
  "diagram_box diagram_text =
     \<lparr>auto_shape_type = Some RECTANGLE, shape_left = Inches 0.5, shape_top = Inches 1.5,
      shape_width = Inches 9, shape_height = Inches 2.5,
      shape_fill = Solid (RGBColor 240 240 240), shape_line = Solid (RGBColor 200 200 200),
      shape_text_frame =
        \<lparr>word_wrap = Some True, margin_left = Some (Inches 0.2),
         margin_top = Some (Inches 0.2),
         paragraphs =
           [\<lparr>par_text = diagram_text,
             par_font = \<lparr>font_size = Some (Pt 14), font_bold = None, font_italic = None,
                          font_color = Some (RGBColor 0 0 0),
                          font_name = Some ''Courier New''\<rparr>,
             par_alignment = None, par_space_before = None, par_level = 0\<rparr>]\<rparr>\<rparr>"
  by (simp add: diagram_box_def add_shape_def new_text_frame_def new_paragraph_def
        new_font_def)

lemma diagram_bullet_box_eq:
  "bullets \<noteq> [] \<Longrightarrow>
   diagram_bullet_box bullets =
     \<lparr>auto_shape_type = None, shape_left = Inches 0.5, shape_top = Inches 4.2,
      shape_width = Inches 9, shape_height = Inches 2.5, shape_fill = Unset,
      shape_line = Unset,
      shape_text_frame = \<lparr>word_wrap = Some True, margin_left = None, margin_top = None,
        paragraphs = map diagram_par bullets\<rparr>\<rparr>"
  by (simp add: diagram_bullet_box_def add_textbox_def diagram_bullets_first
        new_text_frame_def)

text \<open>
  C10. An empty \<open>bullets\<close> list gives the slide that an absent \<open>bullets\<close> gives:
  the header and the diagram box, and no third region.
\<close>

theorem diagram_empty_bullets_as_none:
  "add_diagram_slide prs title diagram_text (Some []) =
     add_diagram_slide prs title diagram_text None \<and>
   shapes (fst (add_diagram_slide prs title diagram_text (Some []))) =
     [Shape (diagram_header title), Shape (diagram_box diagram_text)] \<and>
   third_region (fst (add_diagram_slide prs title diagram_text (Some []))) = None"
  by (simp add: add_diagram_slide_def Let_def third_region_def)

text \<open>
  C6, as the specification words it: whenever a \<open>bullets\<close> sequence is supplied, a
  text region below the diagram box holds its bullets. It fails for a supplied sequence
  that is empty: the slide has no third region.
\<close>

theorem diagram_bullets_supplied_counterexample:
  "third_region (fst (add_diagram_slide main_prs ''T'' ''D'' (Some []))) = None"
  by (simp add: diagram_slide_shapes third_region_def)

text \<open>
  C6, amended: on every diagram slide the second region is a rectangle of fixed place
  and size (0.5 in, 1.5 in, 9 in wide, 2.5 in high, right under the 1.2 in header
  band) filled light gray, whose paragraph is \<open>diagram_text\<close> in Courier New at 14 pt;
  and whenever a \<open>bullets\<close> sequence that is not empty is supplied, the third region
  is a text box that starts below the diagram box and holds one paragraph per bullet, in
  order (18 pt, black, 8 pt before).
\<close>

theorem diagram_slide_regions:
  assumes "bullets \<noteq> []"
  shows "second_region (fst (add_diagram_slide prs title diagram_text any_bullets)) =
           Some (Shape
             \<lparr>auto_shape_type = Some RECTANGLE, shape_left = Inches 0.5,
              shape_top = Inches 1.5, shape_width = Inches 9, shape_height = Inches 2.5,
              shape_fill = Solid (RGBColor 240 240 240),
              shape_line = Solid (RGBColor 200 200 200),
              shape_text_frame =
                \<lparr>word_wrap = Some True, margin_left = Some (Inches 0.2),
                 margin_top = Some (Inches 0.2),
                 paragraphs =
                   [\<lparr>par_text = diagram_text,
                     par_font = \<lparr>font_size = Some (Pt 14), font_bold = None,
                                  font_italic = None, font_color = Some (RGBColor 0 0 0),
                                  font_name = Some ''Courier New''\<rparr>,
                     par_alignment = None, par_space_before = None, par_level = 0\<rparr>]\<rparr>\<rparr>) \<and>
         Inches 0 + Inches 1.2 \<le> Inches 1.5 \<and>
         third_region (fst (add_diagram_slide prs title diagram_text (Some bullets))) =
           Some (Shape
             \<lparr>auto_shape_type = None, shape_left = Inches 0.5, shape_top = Inches 4.2,
              shape_width = Inches 9, shape_height = Inches 2.5, shape_fill = Unset,
              shape_line = Unset,
              shape_text_frame =
                \<lparr>word_wrap = Some True, margin_left = None, margin_top = None,
                 paragraphs = map (\<lambda>bullet.
                   \<lparr>par_text = bullet,
                    par_font = \<lparr>font_size = Some (Pt 18), font_bold = None,
                                 font_italic = None, font_color = Some (RGBColor 0 0 0),
                                 font_name = None\<rparr>,
                    par_alignment = None, par_space_before = Some (Pt 8), par_level = 0\<rparr>)
                   bullets\<rparr>\<rparr>) \<and>
         Inches 1.5 + Inches 2.5 \<le> Inches 4.2"
proof -
  have box: "second_region (fst (add_diagram_slide prs title diagram_text any_bullets)) =
      Some (Shape (diagram_box diagram_text))"
    by (simp add: diagram_slide_shapes second_region_def)
  have below: "third_region (fst (add_diagram_slide prs title diagram_text (Some bullets))) =
      Some (Shape (diagram_bullet_box bullets))"
    using assms by (simp add: diagram_slide_shapes third_region_def)
  have geometry: "Inches 0 + Inches 1.2 \<le> Inches 1.5" "Inches 1.5 + Inches 2.5 \<le> Inches 4.2"
    by (simp_all add: Inches_def)
  show ?thesis
    unfolding box below using assms geometry
    by (simp add: diagram_box_eq diagram_bullet_box_eq diagram_par_def)
qed

theorem diagram_slide_regions_witness:
  "[''a'', ''b''] \<noteq> ([] :: string list) \<and>
   map_option (map par_text)
     (region_paragraphs (third_region
        (fst (add_diagram_slide main_prs ''T'' ''D'' (Some [''a'', ''b''])))))
     = Some [''a'', ''b''] \<and>
   map_option (map par_text)
     (region_paragraphs (second_region
        (fst (add_diagram_slide main_prs ''T'' ''D'' (Some [''a'', ''b''])))))
     = Some [''D'']"
proof -
  have ne: "[''a'', ''b''] \<noteq> ([] :: string list)" by simp
  show ?thesis
    using ne diagram_slide_regions
      [OF ne, of main_prs "''T''" "''D''" "Some [''a'', ''b'']"]
    by (simp add: region_paragraphs_def)
qed

section \<open>Title slides\<close>

text \<open>
  C5. \<open>add_title_slide\<close> with "Buffer Optimization" and "WMS" appends one slide with
  exactly two regions: a blue rectangle from 2.5 in to 4 in from the top, across the
  horizontal middle line of the 7.5 in canvas, with the title in bold white centered
  40 pt text, and below it a text box with the subtitle in gray centered text. With an
  empty subtitle the slide has the banner only; the builder has no failing branch.
\<close>

theorem title_slide_regions:
  "shapes (fst (add_title_slide prs ''Buffer Optimization'' ''WMS'')) =
     [Shape
        \<lparr>auto_shape_type = Some RECTANGLE, shape_left = Inches 0.5, shape_top = Inches 2.5,
         shape_width = Inches 9, shape_height = Inches 1.5,
         shape_fill = Solid (RGBColor 0 112 192), shape_line = Background,
         shape_text_frame =
           \<lparr>word_wrap = Some True, margin_left = None, margin_top = None,
            paragraphs =
              [\<lparr>par_text = ''Buffer Optimization'',
                par_font = \<lparr>font_size = Some (Pt 40), font_bold = Some True,
                             font_italic = None,
                             font_color = Some (RGBColor 255 255 255), font_name = None\<rparr>,
                par_alignment = Some CENTER, par_space_before = None, par_level = 0\<rparr>]\<rparr>\<rparr>,
      Shape
        \<lparr>auto_shape_type = None, shape_left = Inches 0.5, shape_top = Inches 4.2,
         shape_width = Inches 9, shape_height = Inches 0.8, shape_fill = Unset,
         shape_line = Unset,
         shape_text_frame =
           \<lparr>word_wrap = None, margin_left = None, margin_top = None,
            paragraphs =
              [\<lparr>par_text = ''WMS'',
                par_font = \<lparr>font_size = Some (Pt 24), font_bold = None,
                             font_italic = None,
                             font_color = Some (RGBColor 100 100 100), font_name = None\<rparr>,
                par_alignment = Some CENTER, par_space_before = None, par_level = 0\<rparr>]\<rparr>\<rparr>] \<and>
   Inches 2.5 \<le> slide_height main_prs div 2 \<and>
   slide_height main_prs div 2 \<le> Inches 2.5 + Inches 1.5 \<and>
   Inches 2.5 + Inches 1.5 \<le> Inches 4.2 \<and>
   shapes (fst (add_title_slide prs title '''')) = [Shape (title_box title)] \<and>
   slides (snd (add_title_slide prs title subtitle)) =
     slides prs @ [fst (add_title_slide prs title subtitle)]"
  by (simp add: add_title_slide_def Let_def title_box_def subtitle_box_def add_shape_def
        add_textbox_def new_text_frame_def new_paragraph_def new_font_def add_slide_def
        main_prs_def Inches_def)

section \<open>Table slides\<close>

lemma table_headers_fill:
  "length pre = i \<Longrightarrow> length hs \<le> m \<Longrightarrow>
   table_headers i hs ((pre @ replicate m new_cell) # rest) =
     (None, (pre @ map (\<lambda>h. header_cell h new_cell) hs
                @ replicate (m - length hs) new_cell) # rest)"
proof (induction hs arbitrary: i pre m)
  case Nil
  then show ?case by simp
next
  case (Cons h hs)
  then obtain m' where m: "m = Suc m'" by (cases m) auto
  have step: "update_cell ((pre @ replicate m new_cell) # rest) 0 i (header_cell h) =
      Inr (((pre @ [header_cell h new_cell]) @ replicate m' new_cell) # rest)"
    using Cons.prems(1) by (simp add: update_cell_def m nth_append list_update_append)
  have "table_headers (Suc i) hs
          (((pre @ [header_cell h new_cell]) @ replicate m' new_cell) # rest) =
      (None, ((pre @ [header_cell h new_cell]) @ map (\<lambda>h. header_cell h new_cell) hs
                @ replicate (m' - length hs) new_cell) # rest)"
    using Cons.prems by (intro Cons.IH) (simp_all add: m)
  with step show ?case by (simp add: m)
qed

lemma table_row_fill:
  "r + 1 < length tbl \<Longrightarrow> tbl ! (r + 1) = pre @ replicate m new_cell \<Longrightarrow>
   length pre = c \<Longrightarrow>
   table_row r c vs tbl =
     (if length vs \<le> m then None else Some IndexError,
      tbl[r + 1 := pre @ map (\<lambda>val. data_cell val new_cell) (take m vs)
                       @ replicate (m - length vs) new_cell])"
proof (induction vs arbitrary: c pre m tbl)
  case Nil
  then show ?case by (simp add: list_update_same_conv[THEN iffD2])
next
  case (Cons v vs)
  show ?case
  proof (cases m)
    case 0
    with Cons.prems show ?thesis
      by (simp add: update_cell_def list_update_same_conv[THEN iffD2])
  next
    case (Suc m')
    let ?tbl = "tbl[r + 1 := (pre @ [data_cell v new_cell]) @ replicate m' new_cell]"
    have step: "update_cell tbl (r + 1) c (data_cell v) = Inr ?tbl"
      using Cons.prems by (simp add: update_cell_def Suc nth_append list_update_append)
    have "table_row r (Suc c) vs ?tbl =
       (if length vs \<le> m' then None else Some IndexError,
        ?tbl[r + 1 := (pre @ [data_cell v new_cell])
                       @ map (\<lambda>val. data_cell val new_cell) (take m' vs)
                       @ replicate (m' - length vs) new_cell])"
      using Cons.prems by (intro Cons.IH) simp_all
    with step show ?thesis by (simp add: Suc)
  qed
qed

lemma length_rows_reached: "length (rows_reached n rows) \<le> length rows"
  by (induction rows) simp_all

lemma rows_reached_all:
  "\<forall>row\<in>set rows. length row \<le> n \<Longrightarrow> rows_reached n rows = rows"
  by (induction rows) simp_all

lemma table_rows_fill:
  "length top_rows = r + 1 \<Longrightarrow> length rows \<le> k \<Longrightarrow>
   table_rows r rows (top_rows @ replicate k (replicate n new_cell)) =
     (if \<forall>row\<in>set rows. length row \<le> n then None else Some IndexError,
      top_rows @ map (filled_row n) (rows_reached n rows)
        @ replicate (k - length (rows_reached n rows)) (replicate n new_cell))"
proof (induction rows arbitrary: r top_rows k)
  case Nil
  then show ?case by simp
next
  case (Cons row rows)
  then obtain k' where k: "k = Suc k'" by (cases k) auto
  let ?tbl = "top_rows @ replicate k (replicate n new_cell)"
  have "table_row r 0 row ?tbl =
     (if length row \<le> n then None else Some IndexError,
      ?tbl[r + 1 := [] @ map (\<lambda>val. data_cell val new_cell) (take n row)
                       @ replicate (n - length row) new_cell])"
    using Cons.prems by (intro table_row_fill) (simp_all add: k nth_append)
  moreover have "?tbl[r + 1 := filled_row n row] =
        (top_rows @ [filled_row n row]) @ replicate k' (replicate n new_cell)"
    using Cons.prems by (simp add: k list_update_append)
  ultimately have row: "table_row r 0 row ?tbl =
     (if length row \<le> n then None else Some IndexError,
      (top_rows @ [filled_row n row]) @ replicate k' (replicate n new_cell))"
    by (simp add: filled_row_def)
  show ?case
  proof (cases "length row \<le> n")
    case False
    with row show ?thesis by (simp add: k)
  next
    case True
    have "table_rows (Suc r) rows
            ((top_rows @ [filled_row n row]) @ replicate k' (replicate n new_cell)) =
      (if \<forall>row\<in>set rows. length row \<le> n then None else Some IndexError,
       (top_rows @ [filled_row n row]) @ map (filled_row n) (rows_reached n rows)
         @ replicate (k' - length (rows_reached n rows)) (replicate n new_cell))"
      using Cons.prems by (intro Cons.IH) (simp_all add: k)
    with row True show ?thesis by (simp add: k)
  qed
qed

lemma table_headers_grid:
  "table_headers 0 headers
     (replicate (length headers) new_cell
        # replicate (length rows) (replicate (length headers) new_cell)) =
     (None, map (\<lambda>h. header_cell h new_cell) headers
              # replicate (length rows) (replicate (length headers) new_cell))"
proof -
  have "table_headers 0 headers (([] @ replicate (length headers) new_cell)
          # replicate (length rows) (replicate (length headers) new_cell)) =
        (None, ([] @ map (\<lambda>h. header_cell h new_cell) headers
               @ replicate (length headers - length headers) new_cell)
          # replicate (length rows) (replicate (length headers) new_cell))"
    by (intro table_headers_fill) simp_all
  then show ?thesis by simp
qed

lemma table_rows_grid:
  "table_rows 0 rows (map (\<lambda>h. header_cell h new_cell) headers
          # replicate (length rows) (replicate (length headers) new_cell)) =
     (if \<forall>row\<in>set rows. length row \<le> length headers then None else Some IndexError,
      filled_table headers rows)"
proof -
  have "table_rows 0 rows ([map (\<lambda>h. header_cell h new_cell) headers]
          @ replicate (length rows) (replicate (length headers) new_cell)) =
     (if \<forall>row\<in>set rows. length row \<le> length headers then None else Some IndexError,
      [map (\<lambda>h. header_cell h new_cell) headers]
        @ map (filled_row (length headers)) (rows_reached (length headers) rows)
        @ replicate (length rows - length (rows_reached (length headers) rows))
            (replicate (length headers) new_cell))"
    by (intro table_rows_fill) simp_all
  then show ?thesis by (simp add: filled_table_def)
qed

text \<open>
  The table builder on every input: without headers \<open>add_table\<close> raises and the
  slide keeps the header alone; with headers the loops fill the table up to the first
  row that is too long, and the call returns the slide unless there is such a row.
\<close>

lemma add_table_slide_no_headers:
  "add_table_slide prs title [] rows =
     (Inl ZeroDivisionError, add_slide prs \<lparr>shapes = [Shape (table_header title)]\<rparr>)"
  by (simp add: add_table_slide_def Let_def add_table_def)

lemma add_table_slide_result:
  "headers \<noteq> [] \<Longrightarrow>
   add_table_slide prs title headers rows =
     (if \<forall>row\<in>set rows. length row \<le> length headers
      then Inr \<lparr>shapes = [Shape (table_header title),
                          GraphicFrame (table_frame (filled_table headers rows))]\<rparr>
      else Inl IndexError,
      add_slide prs
        \<lparr>shapes = [Shape (table_header title),
                   GraphicFrame (table_frame (filled_table headers rows))]\<rparr>)"
  by (simp add: add_table_slide_def Let_def add_table_def table_headers_grid
        table_rows_grid table_frame_def)

lemma header_cell_new:
  "header_cell h new_cell =
     \<lparr>cell_text = h, cell_fill = Solid (RGBColor 0 112 192),
      cell_font = \<lparr>font_size = Some (Pt 14), font_bold = Some True, font_italic = None,
                    font_color = Some (RGBColor 255 255 255), font_name = None\<rparr>\<rparr>"
  by (simp add: header_cell_def new_cell_def new_font_def)

lemma data_cell_new:
  "data_cell val new_cell =
     \<lparr>cell_text = str val, cell_fill = Unset,
      cell_font = \<lparr>font_size = Some (Pt 12), font_bold = None, font_italic = None,
                    font_color = None, font_name = None\<rparr>\<rparr>"
  by (simp add: data_cell_def new_cell_def new_font_def)

lemma filled_rows_short:
  "\<forall>row\<in>set rows. length row \<le> n \<Longrightarrow>
   map (filled_row n) rows =
     map (\<lambda>row. map (\<lambda>val. data_cell val new_cell) row
                  @ replicate (n - length row) new_cell) rows"
  by (simp add: filled_row_def)

lemma filled_table_short:
  "\<forall>row\<in>set rows. length row \<le> length headers \<Longrightarrow>
   filled_table headers rows =
     map (\<lambda>h. header_cell h new_cell) headers
       # map (\<lambda>row. map (\<lambda>val. data_cell val new_cell) row
                      @ replicate (length headers - length row) new_cell) rows"
  by (simp add: filled_table_def rows_reached_all filled_rows_short)

lemma filled_table_exact:
  "\<forall>row\<in>set rows. length row = length headers \<Longrightarrow>
   filled_table headers rows =
     map (\<lambda>h. header_cell h new_cell) headers
       # map (map (\<lambda>val. data_cell val new_cell)) rows"
  by (simp add: filled_table_short)

text \<open>
  C4, as the specification words it: every table input whose rows all have as many
  values as there are headers yields a grid. It fails for the input without headers and
  with one empty row, which is well formed: \<open>add_table\<close> is asked for a table without
  columns and raises ZeroDivisionError.
\<close>

theorem table_without_headers_counterexample:
  "length ([] :: pyval list) = length ([] :: string list) \<and>
   fst (add_table_slide main_prs ''T'' [] [[]]) = Inl ZeroDivisionError"
  by (simp add: add_table_slide_no_headers)

text \<open>
  C4, amended: when there is at least one header and every row has as many values as
  there are headers, \<open>add_table_slide\<close> returns a slide whose grid has
  \<open>len rows + 1\<close> rows of \<open>len headers\<close> cells: row 0 holds the headers on the
  accent fill in bold white 14 pt, and row \<open>i + 1\<close> holds \<open>str\<close> of the values of
  \<open>rows[i]\<close>, in their order, unfilled at 12 pt.
\<close>

theorem table_slide_grid:
  assumes "headers \<noteq> []"
    and "\<forall>row\<in>set rows. length row = length headers"
  shows "let grid =
             map (\<lambda>header.
                   \<lparr>cell_text = header, cell_fill = Solid (RGBColor 0 112 192),
                    cell_font = \<lparr>font_size = Some (Pt 14), font_bold = Some True,
                                  font_italic = None,
                                  font_color = Some (RGBColor 255 255 255),
                                  font_name = None\<rparr>\<rparr>) headers
             # map (map (\<lambda>val.
                   \<lparr>cell_text = str val, cell_fill = Unset,
                    cell_font = \<lparr>font_size = Some (Pt 12), font_bold = None,
                                  font_italic = None, font_color = None,
                                  font_name = None\<rparr>\<rparr>)) rows;
             slide = \<lparr>shapes = [Shape (table_header title),
                        GraphicFrame \<lparr>frame_left = Inches 0.5, frame_top = Inches 1.5,
                          frame_width = Inches 9, frame_height = Inches 0.5,
                          frame_table = grid\<rparr>]\<rparr>
         in add_table_slide prs title headers rows = (Inr slide, add_slide prs slide) \<and>
            length grid = length rows + 1 \<and>
            (\<forall>cells\<in>set grid. length cells = length headers)"
proof -
  have le: "\<forall>row\<in>set rows. length row \<le> length headers"
    using assms(2) by simp
  show ?thesis
    using assms le
    by (simp add: add_table_slide_result filled_table_exact table_frame_def
          header_cell_new data_cell_new Let_def)
qed

theorem table_slide_grid_witness:
  "[''Metric'', ''Before'', ''After''] \<noteq> [] \<and>
   length [PyStr ''Wave time'', PyStr ''45 min'', PyStr ''32 min'']
     = length [''Metric'', ''Before'', ''After''] \<and>
   map_sum id (\<lambda>s. map_option
       (\<lambda>r. case r of GraphicFrame fr \<Rightarrow> map (map cell_text) (frame_table fr) | _ \<Rightarrow> [])
       (second_region s))
     (fst (add_table_slide main_prs ''T'' [''Metric'', ''Before'', ''After'']
        [[PyStr ''Wave time'', PyStr ''45 min'', PyStr ''32 min'']]))
   = Inr (Some [[''Metric'', ''Before'', ''After''], [''Wave time'', ''45 min'', ''32 min'']])"
proof -
  have ne: "[''Metric'', ''Before'', ''After''] \<noteq> []"
    by simp
  have wf: "\<forall>row\<in>set [[PyStr ''Wave time'', PyStr ''45 min'', PyStr ''32 min'']].
      length row = length [''Metric'', ''Before'', ''After'']"
    by simp
  show ?thesis
    using table_slide_grid [where prs = main_prs and title = "''T''", OF ne wf]
    by (simp add: Let_def second_region_def)
qed




section \<open>All four builders\<close>

lemma title_slide_shapes:
  "shapes (fst (add_title_slide prs title subtitle)) =
     Shape (title_box title)
       # (if subtitle \<noteq> [] then [Shape (subtitle_box subtitle)] else [])"
  by (simp add: add_title_slide_def Let_def)

lemma header_boxes:
  "region_box (Shape (title_box title)) = (Inches 0.5, Inches 2.5, Inches 9, Inches 1.5)"
  "region_box (Shape (content_header title)) = (Inches 0, Inches 0, Inches 10, Inches 1.2)"
  "region_box (Shape (diagram_header title)) = (Inches 0, Inches 0, Inches 10, Inches 1.2)"
  "region_box (Shape (table_header title)) = (Inches 0, Inches 0, Inches 10, Inches 1.2)"
  by (simp_all add: region_box_def title_box_def content_header_def diagram_header_def
        table_header_def add_shape_def Let_def)

lemma table_slide_returned:
  assumes "add_table_slide prs title headers rows = (Inr s, prs')"
  shows "header_region s = Some (Shape (table_header title))"
proof (cases "headers = []")
  case True
  with assms show ?thesis by (simp add: add_table_slide_no_headers)
next
  case False
  with assms show ?thesis
    by (auto simp add: add_table_slide_result header_region_def split: if_splits)
qed

lemma table_outcome_independent:
  "fst (add_table_slide prs title headers rows) = fst (add_table_slide prs' title headers rows)"
  by (cases "headers = []") (simp_all add: add_table_slide_no_headers add_table_slide_result)

text \<open>
  C2, as the specification words it: the region that carries the title sits in the same
  band on the slides of all four builders. It fails between a title slide and a content
  slide.
\<close>

theorem header_band_counterexample:
  "map_option region_box (header_region (fst (add_title_slide main_prs ''T'' ''''))) \<noteq>
   map_option region_box (header_region (fst (add_content_slide main_prs ''T'' [] '''')))"
  by (simp add: header_region_def title_slide_shapes content_slide_shapes header_boxes
        Inches_def)

text \<open>
  C2, amended: on every content, diagram and table slide the header is the band at the
  top left corner of the canvas, 10 in wide (the width of the canvas) and 1.2 in high;
  on every title slide the banner is the box 0.5 in from the left and 2.5 in from the
  top, 9 in wide and 1.5 in high.
\<close>

theorem header_band_of_archetypes:
  "map_option region_box (header_region (fst (add_content_slide prs title bullets note)))
     = Some (Inches 0, Inches 0, Inches 10, Inches 1.2) \<and>
   map_option region_box
       (header_region (fst (add_diagram_slide prs title diagram_text opt_bullets)))
     = Some (Inches 0, Inches 0, Inches 10, Inches 1.2) \<and>
   (\<forall>s prs'. add_table_slide prs title headers rows = (Inr s, prs') \<longrightarrow>
      map_option region_box (header_region s)
        = Some (Inches 0, Inches 0, Inches 10, Inches 1.2)) \<and>
   Inches 0 = 0 \<and> Inches 10 = slide_width main_prs \<and>
   map_option region_box (header_region (fst (add_title_slide prs title subtitle)))
     = Some (Inches 0.5, Inches 2.5, Inches 9, Inches 1.5)"
proof -
  have table: "map_option region_box (header_region s)
        = Some (Inches 0, Inches 0, Inches 10, Inches 1.2)"
    if "add_table_slide prs title headers rows = (Inr s, prs')" for s prs'
    using table_slide_returned [OF that] by (simp add: header_boxes)
  have canvas: "Inches 0 = 0" "Inches 10 = slide_width main_prs"
    by (simp_all add: main_prs_def Inches_def)
  show ?thesis
    using table canvas
    by (simp add: header_region_def title_slide_shapes content_slide_shapes
          diagram_slide_shapes header_boxes)
qed

theorem header_band_of_archetypes_witness:
  "add_table_slide main_prs ''T'' [''A''] [[PyStr ''x'']] =
     (Inr \<lparr>shapes = [Shape (table_header ''T''),
                      GraphicFrame (table_frame [[header_cell ''A'' new_cell],
                                                 [data_cell (PyStr ''x'') new_cell]])]\<rparr>,
      add_slide main_prs
        \<lparr>shapes = [Shape (table_header ''T''),
                  GraphicFrame (table_frame [[header_cell ''A'' new_cell],
                                             [data_cell (PyStr ''x'') new_cell]])]\<rparr>) \<and>
   map_option region_box
     (header_region
        \<lparr>shapes = [Shape (table_header ''T''),
                  GraphicFrame (table_frame [[header_cell ''A'' new_cell],
                                             [data_cell (PyStr ''x'') new_cell]])]\<rparr>)
     = Some (0, 0, 9144000, 1097280)"
proof -
  have ok: "add_table_slide main_prs ''T'' [''A''] [[PyStr ''x'']] =
     (Inr \<lparr>shapes = [Shape (table_header ''T''),
                      GraphicFrame (table_frame [[header_cell ''A'' new_cell],
                                                 [data_cell (PyStr ''x'') new_cell]])]\<rparr>,
      add_slide main_prs
        \<lparr>shapes = [Shape (table_header ''T''),
                  GraphicFrame (table_frame [[header_cell ''A'' new_cell],
                                             [data_cell (PyStr ''x'') new_cell]])]\<rparr>)"
    by (simp add: add_table_slide_result filled_table_def filled_row_def)
  have "map_option region_box
     (header_region
        \<lparr>shapes = [Shape (table_header ''T''),
                  GraphicFrame (table_frame [[header_cell ''A'' new_cell],
                                             [data_cell (PyStr ''x'') new_cell]])]\<rparr>)
     = Some (Inches 0, Inches 0, Inches 10, Inches 1.2)"
    using header_band_of_archetypes
      [where prs = main_prs and title = "''T''" and headers = "[''A'']"
         and rows = "[[PyStr ''x'']]"] ok
    by blast
  with ok show ?thesis by (simp add: Inches_def)
qed

text \<open>
  C7. The slide a builder returns is a function of the content arguments alone: it is
  the same for whatever presentation the call is made on, in particular for the
  presentation that an earlier call with the same arguments has left, which then holds
  the same slide twice. For the table builder the same holds of the outcome, slide or
  error.
\<close>

theorem builders_deterministic:
  "fst (add_title_slide prs title subtitle) = fst (add_title_slide prs' title subtitle) \<and>
   fst (add_content_slide prs title bullets note)
     = fst (add_content_slide prs' title bullets note) \<and>
   fst (add_diagram_slide prs title diagram_text opt_bullets)
     = fst (add_diagram_slide prs' title diagram_text opt_bullets) \<and>
   fst (add_table_slide prs title headers rows)
     = fst (add_table_slide prs' title headers rows) \<and>
   slides (snd (add_title_slide (snd (add_title_slide prs title subtitle)) title subtitle))
     = slides prs @ [fst (add_title_slide prs title subtitle),
                     fst (add_title_slide prs title subtitle)] \<and>
   slides (snd (add_content_slide (snd (add_content_slide prs title bullets note))
                  title bullets note))
     = slides prs @ [fst (add_content_slide prs title bullets note),
                     fst (add_content_slide prs title bullets note)] \<and>
   slides (snd (add_diagram_slide (snd (add_diagram_slide prs title diagram_text opt_bullets))
                  title diagram_text opt_bullets))
     = slides prs @ [fst (add_diagram_slide prs title diagram_text opt_bullets),
                     fst (add_diagram_slide prs title diagram_text opt_bullets)]"
  using table_outcome_independent [of prs title headers rows prs']
  by (simp add: add_title_slide_def add_content_slide_def add_diagram_slide_def
        add_slide_def Let_def split: option.split)

end
